theory Spec2Isabelle
  imports Complex_Main "HOL-Library.Sublist"
begin

section \<open>Values exchanged with the HTTP layer and the container engine\<close>

text \<open>
  The handlers of \<^verbatim>\<open>app.py\<close> receive parsed JSON, read the JSON documents the container
  engine returns and answer with JSON objects. A JSON object is an association list read
  with \<open>map_of\<close>, as a Python \<^verbatim>\<open>dict\<close> is read by key.

  Python floats are modelled by exact rationals: the binary rounding of the individual
  float operations is not part of the model.
\<close>

datatype json =
    JNull
  | JBool bool
  | JInt int
  | JFloat rat
  | JStr string
  | JArray "json list"
  | JObject "(string \<times> json) list"

text \<open>
  The exceptions the handlers can meet. \<open>NotFound\<close> and \<open>APIError\<close> are the classes of
  \<^verbatim>\<open>docker.errors\<close>; both carry the text \<^verbatim>\<open>str(e)\<close> and the text of \<^verbatim>\<open>e.explanation\<close>.
  In the library \<open>NotFound\<close> is a subclass of \<open>APIError\<close>; here \<open>APIError\<close> stands for the
  instances that are not \<open>NotFound\<close>, which is what a handler listing \<open>NotFound\<close> first
  sees. Every other constructor carries the text of \<^verbatim>\<open>str(e)\<close>; for the built-in
  exceptions it is the text CPython 3.11 gives.
\<close>

datatype exn =
    NotFound string string
  | APIError string string
  | PermissionError string
  | KeyError string
  | TypeError string
  | AttributeError string
  | ZeroDivisionError string
  | OtherException string

fun str_exn :: "exn \<Rightarrow> string" where
  "str_exn (NotFound m x) = m"
| "str_exn (APIError m x) = m"
| "str_exn (PermissionError m) = m"
| "str_exn (KeyError m) = m"
| "str_exn (TypeError m) = m"
| "str_exn (AttributeError m) = m"
| "str_exn (ZeroDivisionError m) = m"
| "str_exn (OtherException m) = m"

text \<open>A response is the JSON body together with the HTTP status (200 unless the handler says otherwise).\<close>

type_synonym response = "json \<times> nat"

subsection \<open>Python primitives used by the handlers\<close>

definition quoted :: "string \<Rightarrow> string" where
  "quoted s = [CHR 0x27] @ s @ [CHR 0x27]"

fun type_name :: "json \<Rightarrow> string" where
  "type_name JNull = ''NoneType''"
| "type_name (JBool b) = ''bool''"
| "type_name (JInt i) = ''int''"
| "type_name (JFloat r) = ''float''"
| "type_name (JStr s) = ''str''"
| "type_name (JArray xs) = ''list''"
| "type_name (JObject kvs) = ''dict''"

text \<open>\<^verbatim>\<open>str(n)\<close> for a non-negative integer: its decimal digits.\<close>

definition digit :: "nat \<Rightarrow> char" where
  "digit d = ''0123456789'' ! d"

fun str_nat :: "nat \<Rightarrow> string" where
  "str_nat n = (if n < 10 then [digit n] else str_nat (n div 10) @ [digit (n mod 10)])"

text \<open>\<^verbatim>\<open>v[k]\<close> with a string key: \<open>KeyError\<close> on a dict without the key, \<open>TypeError\<close> on anything
  that is not a dict.\<close>

fun subscript :: "json \<Rightarrow> string \<Rightarrow> exn + json" where
  "subscript (JObject kvs) k =
     (case map_of kvs k of Some v \<Rightarrow> Inr v | None \<Rightarrow> Inl (KeyError (quoted k)))"
| "subscript (JArray xs) k =
     Inl (TypeError ''list indices must be integers or slices, not str'')"
| "subscript (JStr s) k =
     Inl (TypeError (''string indices must be integers, not '' @ quoted ''str''))"
| "subscript v k =
     Inl (TypeError (quoted (type_name v) @ '' object is not subscriptable''))"

text \<open>\<^verbatim>\<open>d.get(k, default)\<close> on a dict.\<close>

definition dict_get :: "(string \<times> json) list \<Rightarrow> string \<Rightarrow> json \<Rightarrow> json" where
  "dict_get kvs k dflt = (case map_of kvs k of Some v \<Rightarrow> v | None \<Rightarrow> dflt)"

text \<open>\<^verbatim>\<open>v.get(k, default)\<close> on any value: only a dict has the method.\<close>

fun method_get :: "json \<Rightarrow> string \<Rightarrow> json \<Rightarrow> exn + json" where
  "method_get (JObject kvs) k dflt = Inr (dict_get kvs k dflt)"
| "method_get v k dflt =
     Inl (AttributeError (quoted (type_name v) @ '' object has no attribute '' @ quoted ''get''))"

text \<open>\<^verbatim>\<open>len(v)\<close>; the length of a string is counted in characters of the model.\<close>

fun py_len :: "json \<Rightarrow> exn + nat" where
  "py_len (JArray xs) = Inr (length xs)"
| "py_len (JStr s) = Inr (length s)"
| "py_len (JObject kvs) = Inr (length (remdups (map fst kvs)))"
| "py_len v = Inl (TypeError (''object of type '' @ quoted (type_name v) @ '' has no len()''))"

definition bind_exn :: "exn + 'a \<Rightarrow> ('a \<Rightarrow> exn + 'b) \<Rightarrow> exn + 'b" where
  "bind_exn m f = (case m of Inl e \<Rightarrow> Inl e | Inr x \<Rightarrow> f x)"

text \<open>The numeric value of an operand of \<^verbatim>\<open>-\<close> and \<^verbatim>\<open>/\<close>, if it has one; Python's \<^verbatim>\<open>bool\<close> is
  an integer type.\<close>

fun number :: "json \<Rightarrow> rat option" where
  "number (JInt i) = Some (of_int i)"
| "number (JFloat r) = Some r"
| "number (JBool b) = Some (if b then 1 else 0)"
| "number v = None"

definition unsupported :: "string \<Rightarrow> string \<Rightarrow> string \<Rightarrow> exn" where
  "unsupported opr l r =
     TypeError (''unsupported operand type(s) for '' @ opr @ '': '' @ quoted l @ '' and '' @ quoted r)"

text \<open>\<^verbatim>\<open>a - b\<close> on two values.\<close>

definition py_sub :: "json \<Rightarrow> json \<Rightarrow> exn + rat" where
  "py_sub a b =
     (case (number a, number b) of
        (Some x, Some y) \<Rightarrow> Inr (x - y)
      | _ \<Rightarrow> Inl (unsupported ''-'' (type_name a) (type_name b)))"

text \<open>\<^verbatim>\<open>x / y\<close> on two numbers.\<close>

definition py_truediv :: "rat \<Rightarrow> rat \<Rightarrow> exn + rat" where
  "py_truediv x y = (if y = 0 then Inl (ZeroDivisionError ''division by zero'') else Inr (x / y))"

text \<open>\<^verbatim>\<open>v / n\<close> for a value \<open>v\<close> and an integer \<open>n\<close>.\<close>

definition py_div_int :: "json \<Rightarrow> int \<Rightarrow> exn + rat" where
  "py_div_int v n =
     (case number v of
        Some x \<Rightarrow> py_truediv x (of_int n)
      | None \<Rightarrow> Inl (unsupported ''/'' (type_name v) ''int''))"

text \<open>
  \<^verbatim>\<open>round(x, ndigits)\<close>: the nearest multiple of \<open>10^(-ndigits)\<close>, a tie going to the even
  neighbour.
\<close>

definition round_half_even :: "rat \<Rightarrow> int" where
  "round_half_even x =
     (let f = \<lfloor>x\<rfloor>; d = x - of_int f
      in if d < 1 / 2 then f else if 1 / 2 < d then f + 1 else if even f then f else f + 1)"

definition py_round :: "rat \<Rightarrow> nat \<Rightarrow> rat" where
  "py_round x ndigits = of_int (round_half_even (x * 10 ^ ndigits)) / 10 ^ ndigits"

section \<open>The metrics computation of \<^verbatim>\<open>container_stats\<close>\<close>

text \<open>
  Lines 65 to 71 of \<^verbatim>\<open>app.py\<close>, on the snapshot \<open>stats\<close> the engine returned:
  \<^verbatim>\<open>
  cpu_delta = stats['cpu_stats']['cpu_usage']['total_usage'] - stats['precpu_stats']['cpu_usage']['total_usage']
  system_delta = stats['cpu_stats']['system_cpu_usage'] - stats['precpu_stats']['system_cpu_usage']
  num_cpus = len(stats['cpu_stats']['cpu_usage'].get('percpu_usage', [])) or 1
  cpu_percent = (cpu_delta / system_delta) * num_cpus * 100.0 if system_delta > 0 and cpu_delta > 0 else 0.0
  mem_usage = stats['memory_stats']['usage'] / 1024 ** 2
  \<close>
\<close>

definition path2 :: "json \<Rightarrow> string \<Rightarrow> string \<Rightarrow> exn + json" where
  "path2 v a b = bind_exn (subscript v a) (\<lambda>x. subscript x b)"

definition path3 :: "json \<Rightarrow> string \<Rightarrow> string \<Rightarrow> string \<Rightarrow> exn + json" where
  "path3 v a b c = bind_exn (path2 v a b) (\<lambda>x. subscript x c)"

definition cpu_delta :: "json \<Rightarrow> exn + rat" where
  "cpu_delta stats =
     bind_exn (path3 stats ''cpu_stats'' ''cpu_usage'' ''total_usage'') (\<lambda>cur.
     bind_exn (path3 stats ''precpu_stats'' ''cpu_usage'' ''total_usage'') (\<lambda>pre.
     py_sub cur pre))"

definition system_delta :: "json \<Rightarrow> exn + rat" where
  "system_delta stats =
     bind_exn (path2 stats ''cpu_stats'' ''system_cpu_usage'') (\<lambda>cur.
     bind_exn (path2 stats ''precpu_stats'' ''system_cpu_usage'') (\<lambda>pre.
     py_sub cur pre))"

definition num_cpus :: "json \<Rightarrow> exn + nat" where
  "num_cpus stats =
     bind_exn (path2 stats ''cpu_stats'' ''cpu_usage'') (\<lambda>usage.
     bind_exn (method_get usage ''percpu_usage'' (JArray [])) (\<lambda>percpu.
     bind_exn (py_len percpu) (\<lambda>n. Inr (if n \<noteq> 0 then n else 1))))"

definition cpu_percent :: "rat \<Rightarrow> rat \<Rightarrow> nat \<Rightarrow> exn + rat" where
  "cpu_percent cd sd n =
     (if sd > 0 \<and> cd > 0
      then bind_exn (py_truediv cd sd) (\<lambda>q. Inr (q * of_nat n * 100))
      else Inr 0)"

definition mem_usage :: "json \<Rightarrow> exn + rat" where
  "mem_usage stats =
     bind_exn (path2 stats ''memory_stats'' ''usage'') (\<lambda>u. py_div_int u (1024 ^ 2))"

text \<open>The unrounded pair \<open>(cpu_percent, mem_usage)\<close>, evaluated in the order of the source.\<close>

definition utilization :: "json \<Rightarrow> exn + rat \<times> rat" where
  "utilization stats =
     bind_exn (cpu_delta stats) (\<lambda>cd.
     bind_exn (system_delta stats) (\<lambda>sd.
     bind_exn (num_cpus stats) (\<lambda>n.
     bind_exn (cpu_percent cd sd n) (\<lambda>cpu.
     bind_exn (mem_usage stats) (\<lambda>m.
     Inr (cpu, m))))))"

text \<open>The success body of lines 73 to 77: both values rounded to two places.\<close>

definition stats_body :: "rat \<times> rat \<Rightarrow> json" where
  "stats_body cm =
     JObject [(''success'', JBool True),
              (''cpu'', JFloat (py_round (fst cm) 2)),
              (''memory'', JFloat (py_round (snd cm) 2))]"

section \<open>The container engine\<close>

text \<open>
  The engine is an external service reached through the client object \<^verbatim>\<open>client\<close>. The model
  keeps what the handlers observe of it: the containers it knows, the resource snapshot
  it reports for each, the container a create-and-start request produces, the exception
  (if any) with which it answers a request, and the requests it has received so far, in
  order. An identifier resolves to the container whose \<open>short_id\<close> it is, the identifier the
  listing hands out.
\<close>

record container =
  short_id :: string
  name :: string
  status :: string
  image_tags :: "exn + string list"

text \<open>The keyword arguments a \<^verbatim>\<open>client.containers.run\<close> request carries.\<close>

record run_args =
  image :: string
  run_name :: json
  detach :: bool
  tty :: bool
  ports :: "(string \<times> nat) list"
  command :: "string list"
  environment :: "string list"

datatype call =
    ContainersList bool
  | ContainersGet string
  | ContainersRun run_args
  | Reload string
  | Start string
  | Restart string
  | Stop string
  | Remove string bool
  | Stats string bool

record engine =
  containers :: "container list"
  snapshots :: "string \<Rightarrow> json"
  run_result :: "run_args \<Rightarrow> exn + container"
  faults :: "call \<Rightarrow> exn option"
  calls :: "call list"

text \<open>A client call either raises or returns, and leaves the engine in a new state.\<close>

type_synonym 'a action = "engine \<Rightarrow> (exn + 'a) \<times> engine"

definition bind_action :: "'a action \<Rightarrow> ('a \<Rightarrow> 'b action) \<Rightarrow> 'b action" where
  "bind_action m f eng =
     (case m eng of (Inl e, eng') \<Rightarrow> (Inl e, eng') | (Inr x, eng') \<Rightarrow> f x eng')"

definition return_action :: "'a \<Rightarrow> 'a action" where
  "return_action x eng = (Inr x, eng)"

definition lift_action :: "exn + 'a \<Rightarrow> 'a action" where
  "lift_action r eng = (r, eng)"

text \<open>Every request is recorded; a request the engine is set to fail raises and changes
  nothing else.\<close>

definition request :: "call \<Rightarrow> 'a action \<Rightarrow> 'a action" where
  "request c serve eng =
     (let eng1 = eng\<lparr>calls := calls eng @ [c]\<rparr>
      in case faults eng c of Some e \<Rightarrow> (Inl e, eng1) | None \<Rightarrow> serve eng1)"

definition no_such_container :: "string \<Rightarrow> exn" where
  "no_such_container k =
     NotFound (''404 Client Error: Not Found (No such container: '' @ k @ '')'')
              (''No such container: '' @ k)"

definition resolve :: "string \<Rightarrow> container action" where
  "resolve k eng =
     (case find (\<lambda>c. short_id c = k) (containers eng) of
        None \<Rightarrow> (Inl (no_such_container k), eng)
      | Some c \<Rightarrow> (Inr c, eng))"

definition set_status :: "string \<Rightarrow> string \<Rightarrow> engine \<Rightarrow> engine" where
  "set_status k s eng =
     eng\<lparr>containers := map (\<lambda>c. if short_id c = k then c\<lparr>status := s\<rparr> else c) (containers eng)\<rparr>"

definition delete :: "string \<Rightarrow> engine \<Rightarrow> engine" where
  "delete k eng = eng\<lparr>containers := filter (\<lambda>c. short_id c \<noteq> k) (containers eng)\<rparr>"

text \<open>\<^verbatim>\<open>client.containers.list(all=...)\<close>: without \<^verbatim>\<open>all\<close> only the running containers.\<close>

definition containers_list :: "bool \<Rightarrow> container list action" where
  "containers_list all =
     request (ContainersList all) (\<lambda>eng.
       (Inr (if all then containers eng
             else filter (\<lambda>c. status c = ''running'') (containers eng)), eng))"

text \<open>\<^verbatim>\<open>client.containers.get(container_id)\<close>.\<close>

definition containers_get :: "string \<Rightarrow> container action" where
  "containers_get k = request (ContainersGet k) (resolve k)"

text \<open>\<^verbatim>\<open>container.reload()\<close>: the attributes of the handle are read again from the engine.\<close>

definition reload :: "container \<Rightarrow> container action" where
  "reload c = request (Reload (short_id c)) (resolve (short_id c))"

text \<open>\<^verbatim>\<open>container.start()\<close>, \<^verbatim>\<open>container.restart()\<close> and \<^verbatim>\<open>container.stop()\<close>.\<close>

definition start :: "container \<Rightarrow> unit action" where
  "start c =
     request (Start (short_id c))
       (bind_action (resolve (short_id c))
          (\<lambda>_ eng. (Inr (), set_status (short_id c) ''running'' eng)))"

definition restart :: "container \<Rightarrow> unit action" where
  "restart c =
     request (Restart (short_id c))
       (bind_action (resolve (short_id c))
          (\<lambda>_ eng. (Inr (), set_status (short_id c) ''running'' eng)))"

definition stop :: "container \<Rightarrow> unit action" where
  "stop c =
     request (Stop (short_id c))
       (bind_action (resolve (short_id c))
          (\<lambda>_ eng. (Inr (), set_status (short_id c) ''exited'' eng)))"

text \<open>\<^verbatim>\<open>container.remove(force=...)\<close>: the engine refuses to remove a running container
  unless forced.\<close>

definition remove_conflict :: "string \<Rightarrow> exn" where
  "remove_conflict k =
     APIError (''409 Client Error: Conflict (cannot remove a running container '' @ k @ '')'')
              (''cannot remove a running container '' @ k)"

definition remove :: "container \<Rightarrow> bool \<Rightarrow> unit action" where
  "remove c force =
     request (Remove (short_id c) force)
       (bind_action (resolve (short_id c))
          (\<lambda>live eng.
             if status live = ''running'' \<and> \<not> force
             then (Inl (remove_conflict (short_id c)), eng)
             else (Inr (), delete (short_id c) eng)))"

text \<open>\<^verbatim>\<open>container.stats(stream=...)\<close>.\<close>

definition stats :: "container \<Rightarrow> bool \<Rightarrow> json action" where
  "stats c stream =
     request (Stats (short_id c) stream)
       (bind_action (resolve (short_id c))
          (\<lambda>_ eng. (Inr (snapshots eng (short_id c)), eng)))"

text \<open>\<^verbatim>\<open>client.containers.run(...)\<close>: the engine creates and starts a container, or raises.\<close>

definition containers_run :: "run_args \<Rightarrow> container action" where
  "containers_run args =
     request (ContainersRun args) (\<lambda>eng.
       case run_result eng args of
         Inl e \<Rightarrow> (Inl e, eng)
       | Inr c \<Rightarrow> (Inr c, eng\<lparr>containers := containers eng @ [c]\<rparr>))"

section \<open>The handlers of \<^verbatim>\<open>app.py\<close>\<close>

definition failure :: "exn \<Rightarrow> json" where
  "failure e = JObject [(''success'', JBool False), (''error'', JStr (str_exn e))]"

subsection \<open>\<^verbatim>\<open>list_containers\<close> (lines 13 to 27)\<close>

text \<open>Lines 16 to 19: the \<^verbatim>\<open>try\<close> around the image tag.\<close>

definition image_name :: "container \<Rightarrow> string" where
  "image_name c =
     (case image_tags c of
        Inl e \<Rightarrow> ''unknown''
      | Inr tags \<Rightarrow> (case tags of [] \<Rightarrow> ''untagged'' | t # ts \<Rightarrow> t))"

definition entry :: "container \<Rightarrow> json" where
  "entry c =
     JObject [(''id'', JStr (short_id c)),
              (''name'', JStr (name c)),
              (''status'', JStr (status c)),
              (''image'', JStr (image_name c))]"

text \<open>The \<^verbatim>\<open>for\<close> loop, appending to the list built so far.\<close>

fun list_loop :: "container list \<Rightarrow> json list \<Rightarrow> json list" where
  "list_loop [] acc = acc"
| "list_loop (c # cs) acc = list_loop cs (acc @ [entry c])"

text \<open>The call \<^verbatim>\<open>client.containers.list(all=True)\<close> is outside every \<^verbatim>\<open>try\<close>: an exception it
  raises leaves the handler (\<open>Inl\<close>).\<close>

definition list_containers :: "engine \<Rightarrow> (exn + response) \<times> engine" where
  "list_containers eng =
     (case containers_list True eng of
        (Inl e, eng1) \<Rightarrow> (Inl e, eng1)
      | (Inr cs, eng1) \<Rightarrow> (Inr (JArray (list_loop cs []), 200), eng1))"

subsection \<open>\<^verbatim>\<open>start_container\<close> (lines 32 to 55)\<close>

text \<open>
  The argument is what \<^verbatim>\<open>request.get_json()\<close> does: it raises, or it returns the parsed
  body (\<open>JNull\<close> for \<^verbatim>\<open>None\<close>). Lines 33 to 35 are outside the \<^verbatim>\<open>try\<close>; the default of
  \<^verbatim>\<open>data.get\<close> is an argument and is evaluated whether or not the key is there, after the
  attribute \<^verbatim>\<open>data.get\<close> has been looked up. \<open>run_kwargs\<close> is the argument list of
  lines 38 to 46.
\<close>

definition run_kwargs :: "json \<Rightarrow> nat \<Rightarrow> run_args" where
  "run_kwargs nm port =
     \<lparr>image = ''wettyoss/wetty'', run_name = nm, detach = True, tty = True,
      ports = [(''3000/tcp'', port)],
      command = [''yarn'', ''start'', ''--'', ''--command'', ''/bin/sh''],
      environment = [''WETTY_BASE=/'']\<rparr>"

definition start_container :: "exn + json \<Rightarrow> engine \<Rightarrow> (exn + response) \<times> engine" where
  "start_container get_json eng =
     (case get_json of
        Inl e \<Rightarrow> (Inl e, eng)
      | Inr data \<Rightarrow>
          (case data of
             JObject kvs \<Rightarrow>
               (case containers_list True eng of
                  (Inl e, eng1) \<Rightarrow> (Inl e, eng1)
                | (Inr everything, eng1) \<Rightarrow>
                    let name = dict_get kvs ''name''
                                 (JStr (''student_'' @ str_nat (length everything + 1)))
                    in (case containers_list False eng1 of
                          (Inl e, eng2) \<Rightarrow> (Inl e, eng2)
                        | (Inr running, eng2) \<Rightarrow>
                            let port = 5050 + length running
                            in (case containers_run (run_kwargs name port) eng2 of
                                  (Inr container, eng3) \<Rightarrow>
                                    (Inr (JObject [(''success'', JBool True),
                                                   (''id'', JStr (short_id container)),
                                                   (''name'', name),
                                                   (''port'', JInt (int port)),
                                                   (''url'', JStr (''http://localhost:'' @ str_nat port))],
                                          200), eng3)
                                | (Inl e, eng3) \<Rightarrow> (Inr (failure e, 200), eng3))))
           | _ \<Rightarrow>
               (Inl (AttributeError (quoted (type_name data) @ '' object has no attribute ''
                                      @ quoted ''get'')), eng)))"

subsection \<open>\<^verbatim>\<open>container_stats\<close> (lines 59 to 79)\<close>

definition container_stats :: "string \<Rightarrow> engine \<Rightarrow> response \<times> engine" where
  "container_stats container_id eng =
     (case bind_action (containers_get container_id) (\<lambda>container.
           bind_action (stats container False) (\<lambda>snapshot.
           lift_action (utilization snapshot))) eng of
        (Inr cm, eng') \<Rightarrow> ((stats_body cm, 200), eng')
      | (Inl e, eng') \<Rightarrow> ((failure e, 200), eng'))"

subsection \<open>\<^verbatim>\<open>restart_container\<close> (lines 83 to 112)\<close>

text \<open>The \<^verbatim>\<open>try\<close> block, lines 86 to 101: the message it builds, or the exception raised.\<close>

definition restart_try :: "string \<Rightarrow> string action" where
  "restart_try container_id =
     bind_action (containers_get container_id) (\<lambda>handle.
     bind_action (reload handle) (\<lambda>container.
       if status container = ''exited'' then
         bind_action (start container) (\<lambda>_.
           return_action (''Container '' @ name container @ '' started successfully.''))
       else if status container = ''running'' then
         bind_action (restart container) (\<lambda>_.
           return_action (''Container '' @ name container @ '' restarted successfully.''))
       else if status container \<in> set [''paused'', ''created''] then
         bind_action (start container) (\<lambda>_.
           return_action (''Container '' @ name container @ '' resumed successfully.''))
       else
         bind_action (start container) (\<lambda>_.
           return_action (''Container '' @ name container @ '' started.''))))"

text \<open>The \<^verbatim>\<open>except\<close> clauses, lines 105 to 112.\<close>

fun restart_except :: "exn \<Rightarrow> response" where
  "restart_except (NotFound m x) =
     (JObject [(''success'', JBool False),
               (''error'', JStr ''Container not found. Please refresh list.'')], 404)"
| "restart_except (APIError m x) =
     (JObject [(''success'', JBool False), (''error'', JStr (''Docker API error: '' @ x))], 200)"
| "restart_except (PermissionError m) =
     (JObject [(''success'', JBool False),
               (''error'', JStr ''Permission denied to access Docker socket.'')], 200)"
| "restart_except e = (failure e, 200)"

definition restart_container :: "string \<Rightarrow> engine \<Rightarrow> response \<times> engine" where
  "restart_container container_id eng =
     (case restart_try container_id eng of
        (Inr msg, eng') \<Rightarrow>
          ((JObject [(''success'', JBool True), (''message'', JStr msg)], 200), eng')
      | (Inl e, eng') \<Rightarrow> (restart_except e, eng'))"

subsection \<open>\<^verbatim>\<open>stop_container\<close> (lines 117 to 123) and \<^verbatim>\<open>remove_container\<close> (lines 127 to 133)\<close>

definition stop_container :: "string \<Rightarrow> engine \<Rightarrow> response \<times> engine" where
  "stop_container container_id eng =
     (case bind_action (containers_get container_id) (\<lambda>container. stop container) eng of
        (Inr _, eng') \<Rightarrow>
          ((JObject [(''success'', JBool True),
                     (''message'', JStr (''Container '' @ container_id @ '' stopped''))], 200), eng')
      | (Inl e, eng') \<Rightarrow> ((failure e, 200), eng'))"

definition remove_container :: "string \<Rightarrow> engine \<Rightarrow> response \<times> engine" where
  "remove_container container_id eng =
     (case bind_action (containers_get container_id) (\<lambda>container. remove container True) eng of
        (Inr _, eng') \<Rightarrow>
          ((JObject [(''success'', JBool True),
                     (''message'', JStr (''Container '' @ container_id @ '' removed''))], 200), eng')
      | (Inl e, eng') \<Rightarrow> ((failure e, 200), eng'))"

section \<open>Quantities the statements refer to\<close>

text \<open>
  A snapshot that carries the counters the metrics computation reads, all of them integers:
  the current and previous \<^verbatim>\<open>total_usage\<close> (\<open>ct\<close>, \<open>pt\<close>), the current and previous
  \<^verbatim>\<open>system_cpu_usage\<close> (\<open>cs\<close>, \<open>ps\<close>), the per-CPU list \<open>pc\<close> (\<open>None\<close> when the key
  \<^verbatim>\<open>percpu_usage\<close> is absent) and the memory usage \<open>mu\<close> in bytes.
\<close>

definition counters ::
  "json \<Rightarrow> int \<Rightarrow> int \<Rightarrow> int \<Rightarrow> int \<Rightarrow> json list option \<Rightarrow> int \<Rightarrow> bool" where
  "counters snap ct pt cs ps pc mu \<longleftrightarrow>
     path3 snap ''cpu_stats'' ''cpu_usage'' ''total_usage'' = Inr (JInt ct) \<and>
     path3 snap ''precpu_stats'' ''cpu_usage'' ''total_usage'' = Inr (JInt pt) \<and>
     path2 snap ''cpu_stats'' ''system_cpu_usage'' = Inr (JInt cs) \<and>
     path2 snap ''precpu_stats'' ''system_cpu_usage'' = Inr (JInt ps) \<and>
     path3 snap ''cpu_stats'' ''cpu_usage'' ''percpu_usage'' =
       (case pc of Some xs \<Rightarrow> Inr (JArray xs)
        | None \<Rightarrow> Inl (KeyError (quoted ''percpu_usage''))) \<and>
     path2 snap ''memory_stats'' ''usage'' = Inr (JInt mu)"

text \<open>What line 67 makes of the per-CPU list: \<^verbatim>\<open>len(...) or 1\<close>.\<close>

definition cpu_count :: "json list option \<Rightarrow> nat" where
  "cpu_count pc = (case pc of None \<Rightarrow> 1 | Some xs \<Rightarrow> if xs = [] then 1 else length xs)"

text \<open>The engine call and the message of lines 90 to 101, as functions of the status and
  the name read after the reload.\<close>

definition action_for :: "string \<Rightarrow> string \<Rightarrow> call" where
  "action_for st k = (if st = ''running'' then Restart k else Start k)"

definition message_for :: "string \<Rightarrow> string \<Rightarrow> string" where
  "message_for st nm =
     (if st = ''exited'' then ''Container '' @ nm @ '' started successfully.''
      else if st = ''running'' then ''Container '' @ nm @ '' restarted successfully.''
      else if st = ''paused'' \<or> st = ''created'' then ''Container '' @ nm @ '' resumed successfully.''
      else ''Container '' @ nm @ '' started.'')"

text \<open>The name and the port lines 34 and 35 compute for a dict body when both listings
  return.\<close>

definition allocated_name :: "(string \<times> json) list \<Rightarrow> engine \<Rightarrow> json" where
  "allocated_name kvs eng =
     dict_get kvs ''name'' (JStr (''student_'' @ str_nat (length (containers eng) + 1)))"

definition allocated_port :: "engine \<Rightarrow> nat" where
  "allocated_port eng = 5050 + length (filter (\<lambda>c. status c = ''running'') (containers eng))"

text \<open>An engine for the concrete instances: it holds the given containers, fails no
  request, and answers a create-and-start request with a running container.\<close>

definition demo :: "container list \<Rightarrow> engine" where
  "demo cs =
     \<lparr>containers = cs,
      snapshots = (\<lambda>k. JNull),
      run_result = (\<lambda>args. Inr \<lparr>short_id = ''f00d'',
                                  name = (case run_name args of JStr s \<Rightarrow> s | _ \<Rightarrow> ''auto''),
                                  status = ''running'',
                                  image_tags = Inr [''wettyoss/wetty:latest'']\<rparr>),
      faults = (\<lambda>c. None),
      calls = []\<rparr>"

section \<open>Properties\<close>

subsection \<open>Exceptions in sequence\<close>

lemma bind_exn_Inl: "bind_exn (Inl e) f = Inl e" by (simp add: bind_exn_def)

lemma bind_exn_Inr: "bind_exn (Inr x) f = f x" by (simp add: bind_exn_def)

lemma subscript_Inr:
  "subscript v k = Inr w \<Longrightarrow> \<exists>kvs. v = JObject kvs \<and> map_of kvs k = Some w"
  by (cases v) (auto split: option.splits)

lemma cpu_percent_total:
  "cpu_percent cd sd n = Inr (if 0 < sd \<and> 0 < cd then cd / sd * of_nat n * 100 else 0)"
  by (simp add: cpu_percent_def py_truediv_def bind_exn_def)

lemma path3_as_path2:
  "path3 v a b c = Inr w \<Longrightarrow> \<exists>kvs. path2 v a b = Inr (JObject kvs) \<and> map_of kvs c = Some w"
  by (auto simp: path3_def bind_exn_def split: sum.splits dest: subscript_Inr)

subsection \<open>The metrics computation on a snapshot with integer counters\<close>

lemma num_cpus_counters:
  assumes "counters snap ct pt cs ps pc mu"
  shows "num_cpus snap = Inr (cpu_count pc)"
proof -
  from assms obtain kvs where k: "path2 snap ''cpu_stats'' ''cpu_usage'' = Inr (JObject kvs)"
    by (auto simp: counters_def dest: path3_as_path2)
  from assms have p: "path3 snap ''cpu_stats'' ''cpu_usage'' ''percpu_usage'' =
       (case pc of Some xs \<Rightarrow> Inr (JArray xs) | None \<Rightarrow> Inl (KeyError (quoted ''percpu_usage'')))"
    by (simp add: counters_def)
  show ?thesis
  proof (cases pc)
    case None
    with p k have "map_of kvs ''percpu_usage'' = None"
      by (auto simp: path3_def bind_exn_def split: option.splits)
    with k show ?thesis
      by (simp add: num_cpus_def bind_exn_def dict_get_def cpu_count_def None)
  next
    case (Some xs)
    with p k have "map_of kvs ''percpu_usage'' = Some (JArray xs)"
      by (auto simp: path3_def bind_exn_def split: option.splits)
    with k show ?thesis
      by (simp add: num_cpus_def bind_exn_def dict_get_def cpu_count_def Some)
  qed
qed

lemma utilization_counters:
  assumes "counters snap ct pt cs ps pc mu"
  shows "utilization snap =
           Inr (if 0 < cs - ps \<and> 0 < ct - pt
                then of_int (ct - pt) / of_int (cs - ps) * of_nat (cpu_count pc) * 100
                else 0,
                of_int mu / 1024 ^ 2)"
  using assms num_cpus_counters [OF assms]
  by (simp add: utilization_def cpu_delta_def system_delta_def mem_usage_def py_sub_def
      py_div_int_def py_truediv_def cpu_percent_total bind_exn_def counters_def)




subsection \<open>Requests to the engine\<close>

lemma request_ok:
  "faults eng c = None \<Longrightarrow> request c serve eng = serve (eng\<lparr>calls := calls eng @ [c]\<rparr>)"
  by (simp add: request_def)

lemma request_fault:
  "faults eng c = Some e \<Longrightarrow> request c serve eng = (Inl e, eng\<lparr>calls := calls eng @ [c]\<rparr>)"
  by (simp add: request_def)

lemma resolve_found:
  "find (\<lambda>c. short_id c = k) (containers eng) = Some c \<Longrightarrow> resolve k eng = (Inr c, eng)"
  by (simp add: resolve_def)

lemma resolve_missing:
  "find (\<lambda>c. short_id c = k) (containers eng) = None \<Longrightarrow>
     resolve k eng = (Inl (no_such_container k), eng)"
  by (simp add: resolve_def)

lemma find_short_id:
  "find (\<lambda>c. short_id c = k) cs = Some c \<Longrightarrow> short_id c = k"
  by (auto simp: find_Some_iff)

lemma find_delete: "find (\<lambda>c. short_id c = k) (containers (delete k eng)) = None"
  by (simp add: delete_def find_None_iff)

lemma containers_list_ok:
  "faults eng (ContainersList all) = None \<Longrightarrow>
     containers_list all eng =
       (Inr (if all then containers eng else filter (\<lambda>c. status c = ''running'') (containers eng)),
        eng\<lparr>calls := calls eng @ [ContainersList all]\<rparr>)"
  by (simp add: containers_list_def request_ok)

lemma containers_get_found:
  assumes "find (\<lambda>c. short_id c = k) (containers eng) = Some c"
    and "faults eng (ContainersGet k) = None"
  shows "containers_get k eng = (Inr c, eng\<lparr>calls := calls eng @ [ContainersGet k]\<rparr>)"
  using assms by (simp add: containers_get_def request_ok resolve_def)

lemma containers_get_missing:
  assumes "find (\<lambda>c. short_id c = k) (containers eng) = None"
    and "faults eng (ContainersGet k) = None"
  shows "containers_get k eng =
           (Inl (no_such_container k), eng\<lparr>calls := calls eng @ [ContainersGet k]\<rparr>)"
  using assms by (simp add: containers_get_def request_ok resolve_def)

lemma containers_get_fault:
  assumes "faults eng (ContainersGet k) = Some e"
  shows "containers_get k eng = (Inl e, eng\<lparr>calls := calls eng @ [ContainersGet k]\<rparr>)"
  using assms by (simp add: containers_get_def request_fault)

lemma containers_run_eq:
  "containers_run args eng =
     (case faults eng (ContainersRun args) of
        Some e \<Rightarrow> (Inl e, eng\<lparr>calls := calls eng @ [ContainersRun args]\<rparr>)
      | None \<Rightarrow>
          (case run_result eng args of
             Inl e \<Rightarrow> (Inl e, eng\<lparr>calls := calls eng @ [ContainersRun args]\<rparr>)
           | Inr c \<Rightarrow> (Inr c, eng\<lparr>calls := calls eng @ [ContainersRun args],
                                  containers := containers eng @ [c]\<rparr>)))"
  by (simp add: containers_run_def request_def Let_def split: option.splits sum.splits)

lemma reload_found:
  assumes "find (\<lambda>c. short_id c = k) (containers eng) = Some c"
    and "short_id h = k"
    and "faults eng (Reload k) = None"
  shows "reload h eng = (Inr c, eng\<lparr>calls := calls eng @ [Reload k]\<rparr>)"
  using assms by (simp add: reload_def request_ok resolve_def)

lemma reload_fault:
  assumes "short_id h = k" and "faults eng (Reload k) = Some e"
  shows "reload h eng = (Inl e, eng\<lparr>calls := calls eng @ [Reload k]\<rparr>)"
  using assms by (simp add: reload_def request_fault)

lemma start_found:
  assumes "find (\<lambda>c. short_id c = k) (containers eng) = Some c"
    and "short_id h = k"
    and "faults eng (Start k) = None"
  shows "start h eng = (Inr (), set_status k ''running'' (eng\<lparr>calls := calls eng @ [Start k]\<rparr>))"
  using assms by (simp add: start_def request_ok resolve_def bind_action_def)

lemma start_fault:
  assumes "short_id h = k" and "faults eng (Start k) = Some e"
  shows "start h eng = (Inl e, eng\<lparr>calls := calls eng @ [Start k]\<rparr>)"
  using assms by (simp add: start_def request_fault)

lemma restart_found:
  assumes "find (\<lambda>c. short_id c = k) (containers eng) = Some c"
    and "short_id h = k"
    and "faults eng (Restart k) = None"
  shows "restart h eng = (Inr (), set_status k ''running'' (eng\<lparr>calls := calls eng @ [Restart k]\<rparr>))"
  using assms by (simp add: restart_def request_ok resolve_def bind_action_def)

lemma restart_fault:
  assumes "short_id h = k" and "faults eng (Restart k) = Some e"
  shows "restart h eng = (Inl e, eng\<lparr>calls := calls eng @ [Restart k]\<rparr>)"
  using assms by (simp add: restart_def request_fault)

lemma stop_found:
  assumes "find (\<lambda>c. short_id c = k) (containers eng) = Some c"
    and "short_id h = k"
    and "faults eng (Stop k) = None"
  shows "stop h eng = (Inr (), set_status k ''exited'' (eng\<lparr>calls := calls eng @ [Stop k]\<rparr>))"
  using assms by (simp add: stop_def request_ok resolve_def bind_action_def)

lemma stop_fault:
  assumes "short_id h = k" and "faults eng (Stop k) = Some e"
  shows "stop h eng = (Inl e, eng\<lparr>calls := calls eng @ [Stop k]\<rparr>)"
  using assms by (simp add: stop_def request_fault)

lemma remove_found:
  assumes "find (\<lambda>c. short_id c = k) (containers eng) = Some c"
    and "short_id h = k"
    and "faults eng (Remove k True) = None"
  shows "remove h True eng = (Inr (), delete k (eng\<lparr>calls := calls eng @ [Remove k True]\<rparr>))"
  using assms by (simp add: remove_def request_ok resolve_def bind_action_def)

lemma remove_fault:
  assumes "short_id h = k" and "faults eng (Remove k f) = Some e"
  shows "remove h f eng = (Inl e, eng\<lparr>calls := calls eng @ [Remove k f]\<rparr>)"
  using assms by (simp add: remove_def request_fault)

lemma remove_unforced_running:
  assumes "find (\<lambda>c. short_id c = k) (containers eng) = Some c"
    and "short_id h = k"
    and "status c = ''running''"
    and "faults eng (Remove k False) = None"
  shows "remove h False eng =
           (Inl (remove_conflict k), eng\<lparr>calls := calls eng @ [Remove k False]\<rparr>)"
  using assms by (simp add: remove_def request_ok resolve_def bind_action_def)

lemma stats_found:
  assumes "find (\<lambda>c. short_id c = k) (containers eng) = Some c"
    and "short_id h = k"
    and "faults eng (Stats k s) = None"
  shows "stats h s eng = (Inr (snapshots eng k), eng\<lparr>calls := calls eng @ [Stats k s]\<rparr>)"
  using assms by (simp add: stats_def request_ok resolve_def bind_action_def)

lemma stats_fault:
  assumes "short_id h = k" and "faults eng (Stats k s) = Some e"
  shows "stats h s eng = (Inl e, eng\<lparr>calls := calls eng @ [Stats k s]\<rparr>)"
  using assms by (simp add: stats_def request_fault)

subsection \<open>The restart handler, path by path\<close>

lemma restart_try_found:
  assumes f: "find (\<lambda>c. short_id c = k) (containers eng) = Some c"
    and g: "faults eng (ContainersGet k) = None"
    and r: "faults eng (Reload k) = None"
  shows "restart_try k eng =
     (case faults eng (action_for (status c) k) of
        None \<Rightarrow> (Inr (message_for (status c) (name c)),
                 set_status k ''running''
                   (eng\<lparr>calls := calls eng @ [ContainersGet k, Reload k, action_for (status c) k]\<rparr>))
      | Some e \<Rightarrow> (Inl e,
                   eng\<lparr>calls := calls eng @ [ContainersGet k, Reload k, action_for (status c) k]\<rparr>))"
proof -
  have id: "short_id c = k" using f by (rule find_short_id)
  let ?e1 = "eng\<lparr>calls := calls eng @ [ContainersGet k]\<rparr>"
  let ?e2 = "?e1\<lparr>calls := calls ?e1 @ [Reload k]\<rparr>"
  have 1: "containers_get k eng = (Inr c, ?e1)"
    using f g by (rule containers_get_found)
  have 2: "reload c ?e1 = (Inr c, ?e2)"
    using f id r by (intro reload_found) simp_all
  have f2: "find (\<lambda>c. short_id c = k) (containers ?e2) = Some c" using f by simp
  show ?thesis
  proof (cases "faults eng (action_for (status c) k)")
    case None
    then have a: "faults ?e2 (Start k) = None" if "status c \<noteq> ''running''"
      using that by (simp add: action_for_def)
    from None have b: "faults ?e2 (Restart k) = None" if "status c = ''running''"
      using that by (simp add: action_for_def)
    show ?thesis
      using None 1 2 start_found [OF f2 id a] restart_found [OF f2 id b]
      by (simp add: restart_try_def bind_action_def return_action_def action_for_def
          message_for_def set_status_def)
  next
    case (Some e)
    then have a: "faults ?e2 (Start k) = Some e" if "status c \<noteq> ''running''"
      using that by (simp add: action_for_def)
    from Some have b: "faults ?e2 (Restart k) = Some e" if "status c = ''running''"
      using that by (simp add: action_for_def)
    show ?thesis
      using Some 1 2 start_fault [OF id a] restart_fault [OF id b]
      by (simp add: restart_try_def bind_action_def return_action_def action_for_def)
  qed
qed




lemma restart_container_get_fault:
  assumes "faults eng (ContainersGet k) = Some e"
  shows "restart_container k eng =
           (restart_except e, eng\<lparr>calls := calls eng @ [ContainersGet k]\<rparr>)"
  by (simp add: restart_container_def restart_try_def bind_action_def
      containers_get_fault [OF assms])

lemma restart_container_missing:
  assumes "find (\<lambda>c. short_id c = k) (containers eng) = None"
    and "faults eng (ContainersGet k) = None"
  shows "restart_container k eng =
           (restart_except (no_such_container k), eng\<lparr>calls := calls eng @ [ContainersGet k]\<rparr>)"
  by (simp add: restart_container_def restart_try_def bind_action_def
      containers_get_missing [OF assms])

lemma restart_container_reload_fault:
  assumes f: "find (\<lambda>c. short_id c = k) (containers eng) = Some c"
    and g: "faults eng (ContainersGet k) = None"
    and r: "faults eng (Reload k) = Some e"
  shows "restart_container k eng =
           (restart_except e, eng\<lparr>calls := calls eng @ [ContainersGet k, Reload k]\<rparr>)"
proof -
  have id: "short_id c = k" using f by (rule find_short_id)
  have "reload c (eng\<lparr>calls := calls eng @ [ContainersGet k]\<rparr>) =
          (Inl e, eng\<lparr>calls := calls eng @ [ContainersGet k]\<rparr>
                    \<lparr>calls := calls (eng\<lparr>calls := calls eng @ [ContainersGet k]\<rparr>) @ [Reload k]\<rparr>)"
    using id r by (intro reload_fault) simp_all
  then show ?thesis
    by (simp add: restart_container_def restart_try_def bind_action_def
        containers_get_found [OF f g])
qed

lemma restart_container_action_fault:
  assumes f: "find (\<lambda>c. short_id c = k) (containers eng) = Some c"
    and g: "faults eng (ContainersGet k) = None"
    and r: "faults eng (Reload k) = None"
    and a: "faults eng (action_for (status c) k) = Some e"
  shows "restart_container k eng =
           (restart_except e,
            eng\<lparr>calls := calls eng @ [ContainersGet k, Reload k, action_for (status c) k]\<rparr>)"
  by (simp add: restart_container_def restart_try_found [OF f g r] a)

subsection \<open>The remove, stop and stats handlers, path by path\<close>

lemma remove_container_found:
  assumes f: "find (\<lambda>c. short_id c = k) (containers eng) = Some c"
    and g: "faults eng (ContainersGet k) = None"
    and r: "faults eng (Remove k True) = None"
  shows "remove_container k eng =
     ((JObject [(''success'', JBool True),
                (''message'', JStr (''Container '' @ k @ '' removed''))], 200),
      delete k (eng\<lparr>calls := calls eng @ [ContainersGet k, Remove k True]\<rparr>))"
proof -
  have id: "short_id c = k" using f by (rule find_short_id)
  let ?e1 = "eng\<lparr>calls := calls eng @ [ContainersGet k]\<rparr>"
  have "remove c True ?e1 = (Inr (), delete k (?e1\<lparr>calls := calls ?e1 @ [Remove k True]\<rparr>))"
    using f id r by (intro remove_found) simp_all
  then show ?thesis
    by (simp add: remove_container_def bind_action_def containers_get_found [OF f g])
qed

lemma remove_container_missing:
  assumes "find (\<lambda>c. short_id c = k) (containers eng) = None"
    and "faults eng (ContainersGet k) = None"
  shows "remove_container k eng =
           ((failure (no_such_container k), 200), eng\<lparr>calls := calls eng @ [ContainersGet k]\<rparr>)"
  by (simp add: remove_container_def bind_action_def containers_get_missing [OF assms])

lemma remove_container_get_fault:
  assumes "faults eng (ContainersGet k) = Some e"
  shows "remove_container k eng =
           ((failure e, 200), eng\<lparr>calls := calls eng @ [ContainersGet k]\<rparr>)"
  by (simp add: remove_container_def bind_action_def containers_get_fault [OF assms])

lemma remove_container_remove_fault:
  assumes f: "find (\<lambda>c. short_id c = k) (containers eng) = Some c"
    and g: "faults eng (ContainersGet k) = None"
    and r: "faults eng (Remove k True) = Some e"
  shows "remove_container k eng =
     ((failure e, 200), eng\<lparr>calls := calls eng @ [ContainersGet k, Remove k True]\<rparr>)"
proof -
  have id: "short_id c = k" using f by (rule find_short_id)
  let ?e1 = "eng\<lparr>calls := calls eng @ [ContainersGet k]\<rparr>"
  have "remove c True ?e1 = (Inl e, ?e1\<lparr>calls := calls ?e1 @ [Remove k True]\<rparr>)"
    using id r by (intro remove_fault) simp_all
  then show ?thesis
    by (simp add: remove_container_def bind_action_def containers_get_found [OF f g])
qed

lemma remove_container_calls:
  "calls (snd (remove_container k eng)) = calls eng @ [ContainersGet k]
   \<or> calls (snd (remove_container k eng)) = calls eng @ [ContainersGet k, Remove k True]"
proof (cases "faults eng (ContainersGet k)")
  case (Some e)
  then show ?thesis by (simp add: remove_container_get_fault)
next
  case g: None
  show ?thesis
  proof (cases "find (\<lambda>c. short_id c = k) (containers eng)")
    case None
    then show ?thesis using g by (simp add: remove_container_missing)
  next
    case f: (Some c)
    show ?thesis
      by (cases "faults eng (Remove k True)")
         (simp_all add: remove_container_found [OF f g] remove_container_remove_fault [OF f g]
            delete_def)
  qed
qed

lemma stop_container_get_fault:
  assumes "faults eng (ContainersGet k) = Some e"
  shows "stop_container k eng =
           ((failure e, 200), eng\<lparr>calls := calls eng @ [ContainersGet k]\<rparr>)"
  by (simp add: stop_container_def bind_action_def containers_get_fault [OF assms])

lemma stop_container_missing:
  assumes "find (\<lambda>c. short_id c = k) (containers eng) = None"
    and "faults eng (ContainersGet k) = None"
  shows "stop_container k eng =
           ((failure (no_such_container k), 200), eng\<lparr>calls := calls eng @ [ContainersGet k]\<rparr>)"
  by (simp add: stop_container_def bind_action_def containers_get_missing [OF assms])

lemma stop_container_stop_fault:
  assumes f: "find (\<lambda>c. short_id c = k) (containers eng) = Some c"
    and g: "faults eng (ContainersGet k) = None"
    and r: "faults eng (Stop k) = Some e"
  shows "stop_container k eng =
     ((failure e, 200), eng\<lparr>calls := calls eng @ [ContainersGet k, Stop k]\<rparr>)"
proof -
  have id: "short_id c = k" using f by (rule find_short_id)
  let ?e1 = "eng\<lparr>calls := calls eng @ [ContainersGet k]\<rparr>"
  have "stop c ?e1 = (Inl e, ?e1\<lparr>calls := calls ?e1 @ [Stop k]\<rparr>)"
    using id r by (intro stop_fault) simp_all
  then show ?thesis
    by (simp add: stop_container_def bind_action_def containers_get_found [OF f g])
qed

lemma container_stats_get_fault:
  assumes "faults eng (ContainersGet k) = Some e"
  shows "container_stats k eng =
           ((failure e, 200), eng\<lparr>calls := calls eng @ [ContainersGet k]\<rparr>)"
  by (simp add: container_stats_def bind_action_def containers_get_fault [OF assms])

lemma container_stats_missing:
  assumes "find (\<lambda>c. short_id c = k) (containers eng) = None"
    and "faults eng (ContainersGet k) = None"
  shows "container_stats k eng =
           ((failure (no_such_container k), 200), eng\<lparr>calls := calls eng @ [ContainersGet k]\<rparr>)"
  by (simp add: container_stats_def bind_action_def containers_get_missing [OF assms])

lemma container_stats_stats_fault:
  assumes f: "find (\<lambda>c. short_id c = k) (containers eng) = Some c"
    and g: "faults eng (ContainersGet k) = None"
    and r: "faults eng (Stats k False) = Some e"
  shows "container_stats k eng =
     ((failure e, 200), eng\<lparr>calls := calls eng @ [ContainersGet k, Stats k False]\<rparr>)"
proof -
  have id: "short_id c = k" using f by (rule find_short_id)
  let ?e1 = "eng\<lparr>calls := calls eng @ [ContainersGet k]\<rparr>"
  have "stats c False ?e1 = (Inl e, ?e1\<lparr>calls := calls ?e1 @ [Stats k False]\<rparr>)"
    using id r by (intro stats_fault) simp_all
  then show ?thesis
    by (simp add: container_stats_def bind_action_def containers_get_found [OF f g])
qed

lemma container_stats_found:
  assumes f: "find (\<lambda>c. short_id c = k) (containers eng) = Some c"
    and g: "faults eng (ContainersGet k) = None"
    and r: "faults eng (Stats k False) = None"
  shows "container_stats k eng =
     ((case utilization (snapshots eng k) of
         Inr cm \<Rightarrow> stats_body cm
       | Inl e \<Rightarrow> failure e, 200),
      eng\<lparr>calls := calls eng @ [ContainersGet k, Stats k False]\<rparr>)"
proof -
  have id: "short_id c = k" using f by (rule find_short_id)
  let ?e1 = "eng\<lparr>calls := calls eng @ [ContainersGet k]\<rparr>"
  have "stats c False ?e1 = (Inr (snapshots ?e1 k), ?e1\<lparr>calls := calls ?e1 @ [Stats k False]\<rparr>)"
    using f id r by (intro stats_found) simp_all
  then show ?thesis
    by (simp add: container_stats_def bind_action_def lift_action_def
        containers_get_found [OF f g] split: sum.splits)
qed

lemma status_200:
  "snd (fst (container_stats k eng)) = 200"
  "snd (fst (stop_container k eng)) = 200"
  "snd (fst (remove_container k eng)) = 200"
  by (simp_all add: container_stats_def stop_container_def remove_container_def
      split: prod.splits sum.splits)

subsection \<open>The listing\<close>

lemma list_loop_map: "list_loop cs acc = acc @ map entry cs"
  by (induction cs arbitrary: acc) simp_all

lemma list_containers_ok:
  assumes "faults eng (ContainersList True) = None"
  shows "list_containers eng =
     (Inr (JArray (map entry (containers eng)), 200),
      eng\<lparr>calls := calls eng @ [ContainersList True]\<rparr>)"
  using assms by (simp add: list_containers_def containers_list_def request_ok list_loop_map)

subsection \<open>The create handler on a dict body\<close>

lemma start_container_object:
  assumes a: "faults eng (ContainersList True) = None"
    and r: "faults eng (ContainersList False) = None"
  shows "start_container (Inr (JObject kvs)) eng =
     (let args = run_kwargs (allocated_name kvs eng) (allocated_port eng);
          issued = calls eng @ [ContainersList True, ContainersList False, ContainersRun args]
      in case (case faults eng (ContainersRun args) of Some e \<Rightarrow> Inl e
               | None \<Rightarrow> run_result eng args) of
           Inl e \<Rightarrow> (Inr (failure e, 200), eng\<lparr>calls := issued\<rparr>)
         | Inr c \<Rightarrow>
             (Inr (JObject [(''success'', JBool True),
                            (''id'', JStr (short_id c)),
                            (''name'', allocated_name kvs eng),
                            (''port'', JInt (int (allocated_port eng))),
                            (''url'', JStr (''http://localhost:'' @ str_nat (allocated_port eng)))],
                   200),
              eng\<lparr>calls := issued, containers := containers eng @ [c]\<rparr>))"
proof -
  let ?e1 = "eng\<lparr>calls := calls eng @ [ContainersList True]\<rparr>"
  have 1: "containers_list True eng = (Inr (containers eng), ?e1)"
    using a by (simp add: containers_list_ok)
  have "faults ?e1 (ContainersList False) = None" using r by simp
  then have 2: "containers_list False ?e1 =
      (Inr (filter (\<lambda>c. status c = ''running'') (containers eng)),
       ?e1\<lparr>calls := calls ?e1 @ [ContainersList False]\<rparr>)"
    by (simp add: containers_list_ok)
  let ?args = "run_kwargs (allocated_name kvs eng) (allocated_port eng)"
  let ?e2 = "?e1\<lparr>calls := calls ?e1 @ [ContainersList False]\<rparr>"
  let ?name = "dict_get kvs ''name'' (JStr (''student_'' @ str_nat (length (containers eng) + 1)))"
  let ?port = "5050 + length (filter (\<lambda>c. status c = ''running'') (containers eng))"
  have args: "run_kwargs ?name ?port = ?args"
    by (simp only: allocated_name_def allocated_port_def)
  have unfold: "start_container (Inr (JObject kvs)) eng =
      (case containers_run ?args ?e2 of
         (Inr c, eng3) \<Rightarrow>
           (Inr (JObject [(''success'', JBool True),
                          (''id'', JStr (short_id c)),
                          (''name'', allocated_name kvs eng),
                          (''port'', JInt (int (allocated_port eng))),
                          (''url'', JStr (''http://localhost:'' @ str_nat (allocated_port eng)))],
                 200), eng3)
       | (Inl e, eng3) \<Rightarrow> (Inr (failure e, 200), eng3))"
  proof (cases "containers_run ?args ?e2")
    case (Pair r eng3)
    then have "containers_run (run_kwargs ?name ?port) ?e2 = (r, eng3)"
      by (simp only: args)
    then show ?thesis
      unfolding start_container_def
      by (cases r) (simp_all add: 1 2 Let_def Pair allocated_name_def allocated_port_def
          del: str_nat.simps)
  qed
  show ?thesis
  proof (cases "faults eng (ContainersRun ?args)")
    case (Some e)
    then show ?thesis
      unfolding unfold by (simp add: containers_run_eq Let_def del: str_nat.simps)
  next
    case None
    then show ?thesis
      unfolding unfold
      by (cases "run_result eng ?args") (simp_all add: containers_run_eq Let_def del: str_nat.simps)
  qed
qed

lemma start_container_calls:
  assumes "faults eng (ContainersList True) = None"
    and "faults eng (ContainersList False) = None"
  shows "calls (snd (start_container (Inr (JObject kvs)) eng)) =
           calls eng @ [ContainersList True, ContainersList False,
                        ContainersRun (run_kwargs (allocated_name kvs eng) (allocated_port eng))]"
  unfolding start_container_object [OF assms] Let_def
  by (simp split: option.splits sum.splits)

lemma start_container_created:
  assumes "faults eng (ContainersList True) = None"
    and "faults eng (ContainersList False) = None"
    and "faults eng (ContainersRun (run_kwargs (allocated_name kvs eng) (allocated_port eng))) = None"
    and "run_result eng (run_kwargs (allocated_name kvs eng) (allocated_port eng)) = Inr c"
  shows "fst (start_container (Inr (JObject kvs)) eng) =
           Inr (JObject [(''success'', JBool True),
                         (''id'', JStr (short_id c)),
                         (''name'', allocated_name kvs eng),
                         (''port'', JInt (int (allocated_port eng))),
                         (''url'', JStr (''http://localhost:'' @ str_nat (allocated_port eng)))],
                200)"
  unfolding start_container_object [OF assms(1,2)] Let_def
  using assms(3,4) by simp

lemma start_container_refused:
  assumes "faults eng (ContainersList True) = None"
    and "faults eng (ContainersList False) = None"
    and "faults eng (ContainersRun (run_kwargs (allocated_name kvs eng) (allocated_port eng))) = Some e
         \<or> faults eng (ContainersRun (run_kwargs (allocated_name kvs eng) (allocated_port eng))) = None
           \<and> run_result eng (run_kwargs (allocated_name kvs eng) (allocated_port eng)) = Inl e"
  shows "fst (start_container (Inr (JObject kvs)) eng) = Inr (failure e, 200)"
  unfolding start_container_object [OF assms(1,2)] Let_def
  using assms(3) by auto

lemma start_container_dict:
  "start_container (Inr (JObject kvs)) eng =
     (case containers_list True eng of
        (Inl e, eng1) \<Rightarrow> (Inl e, eng1)
      | (Inr everything, eng1) \<Rightarrow>
          let name = dict_get kvs ''name''
                       (JStr (''student_'' @ str_nat (length everything + 1)))
          in (case containers_list False eng1 of
                (Inl e, eng2) \<Rightarrow> (Inl e, eng2)
              | (Inr running, eng2) \<Rightarrow>
                  let port = 5050 + length running
                  in (case containers_run (run_kwargs name port) eng2 of
                        (Inr container, eng3) \<Rightarrow>
                          (Inr (JObject [(''success'', JBool True),
                                         (''id'', JStr (short_id container)),
                                         (''name'', name),
                                         (''port'', JInt (int port)),
                                         (''url'', JStr (''http://localhost:'' @ str_nat port))],
                                200), eng3)
                      | (Inl e, eng3) \<Rightarrow> (Inr (failure e, 200), eng3))))"
  by (simp add: start_container_def)

lemma start_container_name_only:
  "map_of kvs' ''name'' = map_of kvs ''name'' \<Longrightarrow>
     start_container (Inr (JObject kvs')) eng = start_container (Inr (JObject kvs)) eng"
proof -
  assume "map_of kvs' ''name'' = map_of kvs ''name''"
  then have eq: "dict_get kvs' ''name'' = dict_get kvs ''name''"
    by (intro ext) (simp add: dict_get_def)
  show ?thesis
    unfolding start_container_dict eq by (rule refl)
qed

lemma sublist_port: "sublist (str_nat p) (''http://localhost:'' @ str_nat p)"
  by (rule sublist_append_leftI)

section \<open>The claims\<close>

subsection \<open>C1\<close>

text \<open>
  Claim C1. For every snapshot with integer counters, the metrics computation returns
  \<open>cpu = (cpuDelta / systemDelta) * onlineCpuCount * 100\<close> when \<open>systemDelta > 0\<close> and
  \<open>cpuDelta > 0\<close>, and \<open>cpu = 0\<close> otherwise; the value is never negative and the computation
  never fails. \<open>onlineCpuCount\<close> is the length of the per-CPU usage list, or 1 when the list
  is absent or empty. With \<open>cpuDelta = 50\<close>, \<open>systemDelta = 500\<close> and two CPUs the value
  is 20.
\<close>

theorem cpu_percent_formula:
  assumes "counters snap ct pt cs ps pc mu"
  shows "\<exists>cpu mem n.
      utilization snap = Inr (cpu, mem)
    \<and> n = (case pc of None \<Rightarrow> 1 | Some xs \<Rightarrow> if xs = [] then 1 else length xs)
    \<and> (0 < cs - ps \<and> 0 < ct - pt \<longrightarrow>
          cpu = (of_int (ct - pt) / of_int (cs - ps)) * of_nat n * 100)
    \<and> (\<not> (0 < cs - ps \<and> 0 < ct - pt) \<longrightarrow> cpu = 0)
    \<and> 0 \<le> cpu
    \<and> (ct - pt = 50 \<and> cs - ps = 500 \<and> n = 2 \<longrightarrow> cpu = 20)"
proof -
  let ?n = "cpu_count pc"
  let ?cpu = "if 0 < cs - ps \<and> 0 < ct - pt
              then (of_int (ct - pt) :: rat) / of_int (cs - ps) * of_nat ?n * 100 else 0"
  have u: "utilization snap = Inr (?cpu, of_int mu / 1024 ^ 2)"
    using assms by (rule utilization_counters)
  have n: "?n = (case pc of None \<Rightarrow> 1 | Some xs \<Rightarrow> if xs = [] then 1 else length xs)"
    by (simp add: cpu_count_def)
  have a: "0 < cs - ps \<and> 0 < ct - pt \<longrightarrow>
          ?cpu = (of_int (ct - pt) / of_int (cs - ps)) * of_nat ?n * 100"
    by simp
  have b: "\<not> (0 < cs - ps \<and> 0 < ct - pt) \<longrightarrow> ?cpu = 0"
    by auto
  have c: "0 \<le> ?cpu"
    by simp
  have d: "ct - pt = 50 \<and> cs - ps = 500 \<and> ?n = 2 \<longrightarrow> ?cpu = 20"
  proof (intro impI, elim conjE)
    assume h: "ct - pt = 50" "cs - ps = 500" "?n = 2"
    have "(if (0::int) < 500 \<and> (0::int) < 50
           then (of_int 50 :: rat) / of_int 500 * of_nat 2 * 100 else 0) = 20"
      by simp
    then show "?cpu = 20" by (simp only: h)
  qed
  from u n a b c d show ?thesis by blast
qed

theorem cpu_percent_formula_witness:
  "utilization
     (JObject
        [(''cpu_stats'',
            JObject [(''cpu_usage'', JObject [(''total_usage'', JInt 150),
                                             (''percpu_usage'', JArray [JInt 80, JInt 70])]),
                     (''system_cpu_usage'', JInt 1500)]),
         (''precpu_stats'',
            JObject [(''cpu_usage'', JObject [(''total_usage'', JInt 100)]),
                     (''system_cpu_usage'', JInt 1000)]),
         (''memory_stats'', JObject [(''usage'', JInt 104857600)])])
   = Inr (20, 100)"
proof -
  let ?snap = "JObject
        [(''cpu_stats'',
            JObject [(''cpu_usage'', JObject [(''total_usage'', JInt 150),
                                             (''percpu_usage'', JArray [JInt 80, JInt 70])]),
                     (''system_cpu_usage'', JInt 1500)]),
         (''precpu_stats'',
            JObject [(''cpu_usage'', JObject [(''total_usage'', JInt 100)]),
                     (''system_cpu_usage'', JInt 1000)]),
         (''memory_stats'', JObject [(''usage'', JInt 104857600)])]"
  have w: "counters ?snap 150 100 1500 1000 (Some [JInt 80, JInt 70]) 104857600"
    by (simp add: counters_def path2_def path3_def bind_exn_def)
  from cpu_percent_formula [OF w] show ?thesis
    unfolding utilization_counters [OF w] by (simp add: cpu_count_def)
qed

subsection \<open>C2\<close>



subsection \<open>C3\<close>

text \<open>
  Claim C3. When the body of the create request is a dict without the key \<open>name\<close>, the
  name sent to the engine and returned in the response is \<open>student_\<close> followed by the
  number of all containers the engine knows (stopped ones included) plus one:
  \<open>student_1\<close> with no container, \<open>student_2\<close> with one.
\<close>

theorem default_name:
  assumes "map_of kvs ''name'' = None"
    and "faults eng (ContainersList True) = None"
    and "faults eng (ContainersList False) = None"
  shows "\<exists>args nm.
      nm = ''student_'' @ str_nat (length (containers eng) + 1)
    \<and> calls (snd (start_container (Inr (JObject kvs)) eng)) =
        calls eng @ [ContainersList True, ContainersList False, ContainersRun args]
    \<and> run_name args = JStr nm
    \<and> (\<forall>c. faults eng (ContainersRun args) = None \<and> run_result eng args = Inr c \<longrightarrow>
          (\<exists>body. fst (start_container (Inr (JObject kvs)) eng) = Inr (JObject body, 200)
              \<and> map_of body ''success'' = Some (JBool True)
              \<and> map_of body ''name'' = Some (JStr nm)))
    \<and> (length (containers eng) = 0 \<longrightarrow> nm = ''student_1'')
    \<and> (length (containers eng) = 1 \<longrightarrow> nm = ''student_2'')"
proof -
  let ?args = "run_kwargs (allocated_name kvs eng) (allocated_port eng)"
  let ?nm = "''student_'' @ str_nat (length (containers eng) + 1)"
  have nm: "allocated_name kvs eng = JStr ?nm"
    using assms(1) by (simp add: allocated_name_def dict_get_def del: str_nat.simps)
  have "run_name ?args = JStr ?nm"
    by (simp only: nm) (simp add: run_kwargs_def del: str_nat.simps)
  moreover have "\<exists>body. fst (start_container (Inr (JObject kvs)) eng) = Inr (JObject body, 200)
              \<and> map_of body ''success'' = Some (JBool True)
              \<and> map_of body ''name'' = Some (JStr ?nm)"
    if "faults eng (ContainersRun ?args) = None" "run_result eng ?args = Inr c" for c
    unfolding start_container_created [OF assms(2,3) that] nm by simp
  moreover have "length (containers eng) = 0 \<longrightarrow> ?nm = ''student_1''"
    by (simp add: digit_def)
  moreover have "length (containers eng) = 1 \<longrightarrow> ?nm = ''student_2''"
    by (simp add: digit_def)
  ultimately show ?thesis
    using start_container_calls [OF assms(2,3), of kvs] by blast
qed

theorem default_name_witness:
  "\<exists>args.
      calls (snd (start_container (Inr (JObject [])) (demo []))) =
        [ContainersList True, ContainersList False, ContainersRun args]
    \<and> run_name args = JStr ''student_1''
    \<and> (\<exists>body. fst (start_container (Inr (JObject [])) (demo [])) = Inr (JObject body, 200)
              \<and> map_of body ''success'' = Some (JBool True)
              \<and> map_of body ''name'' = Some (JStr ''student_1''))"
  using default_name [of "[]" "demo []"] by (auto simp: demo_def digit_def)

subsection \<open>C4\<close>

text \<open>
  Claim C4. For every create request with a dict body, the host port sent to the engine
  and returned in the response is 5050 plus the number of running containers; with no
  container it is 5050 and the returned url contains it. Two bodies that agree on the key
  \<open>name\<close> give the same result, so a \<open>port\<close> field in the body changes nothing.
\<close>

theorem host_port:
  assumes "faults eng (ContainersList True) = None"
    and "faults eng (ContainersList False) = None"
  shows "(\<exists>args port.
      port = 5050 + length (filter (\<lambda>c. status c = ''running'') (containers eng))
    \<and> calls (snd (start_container (Inr (JObject kvs)) eng)) =
        calls eng @ [ContainersList True, ContainersList False, ContainersRun args]
    \<and> ports args = [(''3000/tcp'', port)]
    \<and> (\<forall>c. faults eng (ContainersRun args) = None \<and> run_result eng args = Inr c \<longrightarrow>
          (\<exists>body url. fst (start_container (Inr (JObject kvs)) eng) = Inr (JObject body, 200)
              \<and> map_of body ''port'' = Some (JInt (int port))
              \<and> map_of body ''url'' = Some (JStr url)
              \<and> sublist (str_nat port) url))
    \<and> (containers eng = [] \<longrightarrow> port = 5050 \<and> str_nat port = ''5050''))
    \<and> (map_of kvs' ''name'' = map_of kvs ''name'' \<longrightarrow>
          start_container (Inr (JObject kvs')) eng = start_container (Inr (JObject kvs)) eng)"
proof -
  let ?args = "run_kwargs (allocated_name kvs eng) (allocated_port eng)"
  let ?port = "5050 + length (filter (\<lambda>c. status c = ''running'') (containers eng))"
  have port: "allocated_port eng = ?port"
    by (simp add: allocated_port_def)
  have "ports ?args = [(''3000/tcp'', ?port)]"
    by (simp add: run_kwargs_def port)
  moreover have "\<exists>body url. fst (start_container (Inr (JObject kvs)) eng) = Inr (JObject body, 200)
              \<and> map_of body ''port'' = Some (JInt (int ?port))
              \<and> map_of body ''url'' = Some (JStr url)
              \<and> sublist (str_nat ?port) url"
    if "faults eng (ContainersRun ?args) = None" "run_result eng ?args = Inr c" for c
    unfolding start_container_created [OF assms that] port
    using sublist_port [of ?port] by (simp del: str_nat.simps)
  moreover have "containers eng = [] \<longrightarrow> ?port = 5050 \<and> str_nat ?port = ''5050''"
    by (simp add: digit_def)
  ultimately show ?thesis
    using start_container_calls [OF assms, of kvs] start_container_name_only [of kvs' kvs eng]
    by blast
qed

theorem host_port_witness:
  "\<exists>args.
      calls (snd (start_container (Inr (JObject [(''port'', JInt 9999)])) (demo []))) =
        [ContainersList True, ContainersList False, ContainersRun args]
    \<and> ports args = [(''3000/tcp'', 5050)]
    \<and> (\<exists>body url. fst (start_container (Inr (JObject [(''port'', JInt 9999)])) (demo []))
                       = Inr (JObject body, 200)
              \<and> map_of body ''port'' = Some (JInt 5050)
              \<and> map_of body ''url'' = Some (JStr url)
              \<and> sublist ''5050'' url)
    \<and> start_container (Inr (JObject [])) (demo [])
        = start_container (Inr (JObject [(''port'', JInt 9999)])) (demo [])"
  using host_port [of "demo []" "[(''port'', JInt 9999)]" "[]"]
  apply (simp add: demo_def del: str_nat.simps)
  apply (elim conjE exE)
  apply (simp add: digit_def)
  done

subsection \<open>C5\<close>

text \<open>
  Claim C5. The restart handler keeps its failure categories apart. An identifier that
  does not resolve is answered with status 404 and the not-found text. Whichever engine
  call raises (the lookup, the reload or the corrective call), the exception goes through
  the \<^verbatim>\<open>except\<close> clauses: \<open>NotFound\<close> gives 404 and the not-found text, \<open>PermissionError\<close>
  gives the permission text, any other \<open>APIError\<close> gives \<open>Docker API error: \<close> followed by
  the engine's explanation. The three texts are pairwise different, and the failing call
  is the last request issued: nothing is retried.
\<close>

theorem restart_container_failures:
  "(faults eng (ContainersGet k) = None \<and> find (\<lambda>c. short_id c = k) (containers eng) = None \<longrightarrow>
      restart_container k eng =
        ((JObject [(''success'', JBool False),
                   (''error'', JStr ''Container not found. Please refresh list.'')], 404),
         eng\<lparr>calls := calls eng @ [ContainersGet k]\<rparr>))
   \<and> (\<forall>e. faults eng (ContainersGet k) = Some e \<longrightarrow>
          restart_container k eng =
            (restart_except e, eng\<lparr>calls := calls eng @ [ContainersGet k]\<rparr>))
   \<and> (\<forall>c e. faults eng (ContainersGet k) = None
            \<and> find (\<lambda>c. short_id c = k) (containers eng) = Some c
            \<and> faults eng (Reload k) = Some e \<longrightarrow>
          restart_container k eng =
            (restart_except e, eng\<lparr>calls := calls eng @ [ContainersGet k, Reload k]\<rparr>))
   \<and> (\<forall>c e. faults eng (ContainersGet k) = None
            \<and> find (\<lambda>c. short_id c = k) (containers eng) = Some c
            \<and> faults eng (Reload k) = None
            \<and> faults eng (if status c = ''running'' then Restart k else Start k) = Some e \<longrightarrow>
          restart_container k eng =
            (restart_except e,
             eng\<lparr>calls := calls eng @ [ContainersGet k, Reload k,
                                        if status c = ''running'' then Restart k else Start k]\<rparr>))
   \<and> (\<forall>m x. restart_except (NotFound m x) =
          (JObject [(''success'', JBool False),
                    (''error'', JStr ''Container not found. Please refresh list.'')], 404))
   \<and> (\<forall>m. restart_except (PermissionError m) =
          (JObject [(''success'', JBool False),
                    (''error'', JStr ''Permission denied to access Docker socket.'')], 200))
   \<and> (\<forall>m x. restart_except (APIError m x) =
          (JObject [(''success'', JBool False),
                    (''error'', JStr (''Docker API error: '' @ x))], 200))
   \<and> (\<forall>x. ''Container not found. Please refresh list.'' \<noteq> ''Permission denied to access Docker socket.''
          \<and> ''Container not found. Please refresh list.'' \<noteq> ''Docker API error: '' @ x
          \<and> ''Permission denied to access Docker socket.'' \<noteq> ''Docker API error: '' @ x)"
  using restart_container_missing [of k eng] restart_container_get_fault [of eng k]
    restart_container_reload_fault [of k eng] restart_container_action_fault [of k eng]
  by (simp add: no_such_container_def action_for_def)

theorem restart_container_failures_witness:
  "restart_container ''zzz'' (demo []) =
     ((JObject [(''success'', JBool False),
                (''error'', JStr ''Container not found. Please refresh list.'')], 404),
      (demo [])\<lparr>calls := [ContainersGet ''zzz'']\<rparr>)
   \<and> fst (restart_container ''zzz''
        ((demo [])\<lparr>faults := (\<lambda>c. Some (PermissionError ''[Errno 13] Permission denied''))\<rparr>)) =
     (JObject [(''success'', JBool False),
               (''error'', JStr ''Permission denied to access Docker socket.'')], 200)
   \<and> fst (restart_container ''zzz''
        ((demo [])\<lparr>faults := (\<lambda>c. Some (APIError ''500 Server Error'' ''driver failed''))\<rparr>)) =
     (JObject [(''success'', JBool False),
               (''error'', JStr ''Docker API error: driver failed'')], 200)"
  using restart_container_failures [of "demo []" "''zzz''"]
    restart_container_failures
      [of "(demo [])\<lparr>faults := (\<lambda>c. Some (PermissionError ''[Errno 13] Permission denied''))\<rparr>"
          "''zzz''"]
    restart_container_failures
      [of "(demo [])\<lparr>faults := (\<lambda>c. Some (APIError ''500 Server Error'' ''driver failed''))\<rparr>"
          "''zzz''"]
  by (simp add: demo_def)

subsection \<open>C6\<close>



subsection \<open>C7\<close>

text \<open>
  Claim C7. The listing returns one entry per container the engine knows, in order,
  stopped ones included. The image field of an entry is the first tag when there are tags,
  \<open>untagged\<close> when the tag list is empty and \<open>unknown\<close> when resolving the tags raises.
  Entry \<open>i\<close> depends on container \<open>i\<close> only, so a failing tag resolution changes the image
  field of its own entry and nothing else.
\<close>

theorem listing_isolates_tag_failures:
  assumes "faults eng (ContainersList True) = None"
  shows "\<exists>entries.
      fst (list_containers eng) = Inr (JArray entries, 200)
    \<and> length entries = length (containers eng)
    \<and> (\<forall>i < length (containers eng).
          entries ! i =
            JObject [(''id'', JStr (short_id (containers eng ! i))),
                     (''name'', JStr (name (containers eng ! i))),
                     (''status'', JStr (status (containers eng ! i))),
                     (''image'', JStr (case image_tags (containers eng ! i) of
                                         Inl e \<Rightarrow> ''unknown''
                                       | Inr [] \<Rightarrow> ''untagged''
                                       | Inr (t # ts) \<Rightarrow> t))])"
  unfolding list_containers_ok [OF assms]
  by (rule exI [of _ "map entry (containers eng)"])
     (simp add: entry_def image_name_def split: sum.splits list.splits)

theorem listing_isolates_tag_failures_witness:
  "fst (list_containers (demo
      [\<lparr>short_id = ''a1'', name = ''student_1'', status = ''running'',
         image_tags = Inr [''wettyoss/wetty:latest'']\<rparr>,
       \<lparr>short_id = ''b2'', name = ''student_2'', status = ''exited'',
         image_tags = Inl (NotFound ''404 Client Error: Not Found'' ''No such image'')\<rparr>,
       \<lparr>short_id = ''c3'', name = ''student_3'', status = ''created'', image_tags = Inr []\<rparr>]))
   = Inr (JArray
       [JObject [(''id'', JStr ''a1''), (''name'', JStr ''student_1''),
                 (''status'', JStr ''running''), (''image'', JStr ''wettyoss/wetty:latest'')],
        JObject [(''id'', JStr ''b2''), (''name'', JStr ''student_2''),
                 (''status'', JStr ''exited''), (''image'', JStr ''unknown'')],
        JObject [(''id'', JStr ''c3''), (''name'', JStr ''student_3''),
                 (''status'', JStr ''created''), (''image'', JStr ''untagged'')]], 200)"
proof -
  let ?cs = "[\<lparr>short_id = ''a1'', name = ''student_1'', status = ''running'',
         image_tags = Inr [''wettyoss/wetty:latest'']\<rparr>,
       \<lparr>short_id = ''b2'', name = ''student_2'', status = ''exited'',
         image_tags = Inl (NotFound ''404 Client Error: Not Found'' ''No such image'')\<rparr>,
       \<lparr>short_id = ''c3'', name = ''student_3'', status = ''created'', image_tags = Inr []\<rparr>]"
  have "faults (demo ?cs) (ContainersList True) = None" by (simp add: demo_def)
  from listing_isolates_tag_failures [OF this]
  obtain entries where e: "fst (list_containers (demo ?cs)) = Inr (JArray entries, 200)"
    and l: "length entries = 3"
    and n: "\<forall>i<3. entries ! i =
            JObject [(''id'', JStr (short_id (?cs ! i))),
                     (''name'', JStr (name (?cs ! i))),
                     (''status'', JStr (status (?cs ! i))),
                     (''image'', JStr (case image_tags (?cs ! i) of
                                         Inl e \<Rightarrow> ''unknown''
                                       | Inr [] \<Rightarrow> ''untagged''
                                       | Inr (t # ts) \<Rightarrow> t))]"
    by (auto simp: demo_def)
  from n have "entries ! 0 = JObject [(''id'', JStr ''a1''), (''name'', JStr ''student_1''),
                 (''status'', JStr ''running''), (''image'', JStr ''wettyoss/wetty:latest'')]"
    and "entries ! 1 = JObject [(''id'', JStr ''b2''), (''name'', JStr ''student_2''),
                 (''status'', JStr ''exited''), (''image'', JStr ''unknown'')]"
    and "entries ! 2 = JObject [(''id'', JStr ''c3''), (''name'', JStr ''student_3''),
                 (''status'', JStr ''created''), (''image'', JStr ''untagged'')]"
    by (simp_all add: numeral_3_eq_3 numeral_2_eq_2 All_less_Suc)
  with l have "entries = [JObject [(''id'', JStr ''a1''), (''name'', JStr ''student_1''),
                 (''status'', JStr ''running''), (''image'', JStr ''wettyoss/wetty:latest'')],
        JObject [(''id'', JStr ''b2''), (''name'', JStr ''student_2''),
                 (''status'', JStr ''exited''), (''image'', JStr ''unknown'')],
        JObject [(''id'', JStr ''c3''), (''name'', JStr ''student_3''),
                 (''status'', JStr ''created''), (''image'', JStr ''untagged'')]]"
    by (cases entries; cases "tl entries"; cases "tl (tl entries)") (auto simp: numeral_3_eq_3 numeral_2_eq_2)
  with e show ?thesis by simp
qed

subsection \<open>C8\<close>

text \<open>
  Claim C8. The remove handler always asks the engine to remove with \<open>force = True\<close>:
  the requests it issues are the lookup alone, or the lookup followed by the forced
  removal. For a container the engine resolves, whatever its status, the first call
  succeeds and the container is gone; a second call with the same identifier fails with
  the engine's \<open>NotFound\<close> error, and the container is still gone.
\<close>

theorem remove_container_twice:
  assumes "find (\<lambda>c. short_id c = k) (containers eng) = Some c"
    and "faults eng (ContainersGet k) = None"
    and "faults eng (Remove k True) = None"
  shows "(\<exists>eng1 eng2.
      remove_container k eng =
        ((JObject [(''success'', JBool True),
                   (''message'', JStr (''Container '' @ k @ '' removed''))], 200), eng1)
    \<and> calls eng1 = calls eng @ [ContainersGet k, Remove k True]
    \<and> find (\<lambda>c. short_id c = k) (containers eng1) = None
    \<and> remove_container k eng1 =
        ((JObject [(''success'', JBool False),
                   (''error'', JStr (str_exn (no_such_container k)))], 200), eng2)
    \<and> (\<exists>m x. no_such_container k = NotFound m x)
    \<and> calls eng2 = calls eng1 @ [ContainersGet k]
    \<and> find (\<lambda>c. short_id c = k) (containers eng2) = None)
    \<and> (calls (snd (remove_container k' eng')) = calls eng' @ [ContainersGet k']
       \<or> calls (snd (remove_container k' eng')) = calls eng' @ [ContainersGet k', Remove k' True])"
proof -
  let ?e1 = "delete k (eng\<lparr>calls := calls eng @ [ContainersGet k, Remove k True]\<rparr>)"
  let ?e2 = "?e1\<lparr>calls := calls ?e1 @ [ContainersGet k]\<rparr>"
  have 1: "remove_container k eng =
        ((JObject [(''success'', JBool True),
                   (''message'', JStr (''Container '' @ k @ '' removed''))], 200), ?e1)"
    using assms by (rule remove_container_found)
  have gone: "find (\<lambda>c. short_id c = k) (containers ?e1) = None"
    by (rule find_delete)
  have "faults ?e1 (ContainersGet k) = None"
    using assms(2) by (simp add: delete_def)
  with gone have 2: "remove_container k ?e1 = ((failure (no_such_container k), 200), ?e2)"
    by (rule remove_container_missing)
  have 3: "find (\<lambda>c. short_id c = k) (containers ?e2) = None"
    using gone by simp
  have "\<exists>m x. no_such_container k = NotFound m x"
    by (simp add: no_such_container_def)
  moreover have "calls ?e1 = calls eng @ [ContainersGet k, Remove k True]"
    by (simp add: delete_def)
  moreover have "calls ?e2 = calls ?e1 @ [ContainersGet k]"
    by simp
  moreover note 1 2 [unfolded failure_def] gone 3 remove_container_calls [of k' eng']
  ultimately show ?thesis
    by blast
qed

theorem remove_container_twice_witness:
  "\<exists>eng1 eng2.
      remove_container ''a1''
        (demo [\<lparr>short_id = ''a1'', name = ''student_1'', status = ''running'',
                 image_tags = Inr [''wettyoss/wetty:latest'']\<rparr>]) =
        ((JObject [(''success'', JBool True),
                   (''message'', JStr ''Container a1 removed'')], 200), eng1)
    \<and> calls eng1 = [ContainersGet ''a1'', Remove ''a1'' True]
    \<and> find (\<lambda>c. short_id c = ''a1'') (containers eng1) = None
    \<and> remove_container ''a1'' eng1 =
        ((JObject [(''success'', JBool False),
                   (''error'', JStr ''404 Client Error: Not Found (No such container: a1)'')], 200),
         eng2)
    \<and> calls eng2 = [ContainersGet ''a1'', Remove ''a1'' True, ContainersGet ''a1'']
    \<and> find (\<lambda>c. short_id c = ''a1'') (containers eng2) = None"
proof -
  let ?c = "\<lparr>short_id = ''a1'', name = ''student_1'', status = ''running'',
                 image_tags = Inr [''wettyoss/wetty:latest'']\<rparr>"
  have "find (\<lambda>c. short_id c = ''a1'') (containers (demo [?c])) = Some ?c"
    and "faults (demo [?c]) (ContainersGet ''a1'') = None"
    and "faults (demo [?c]) (Remove ''a1'' True) = None"
    by (simp_all add: demo_def)
  from remove_container_twice [OF this] obtain eng1 eng2 where
    "remove_container ''a1'' (demo [?c]) =
        ((JObject [(''success'', JBool True),
                   (''message'', JStr (''Container '' @ ''a1'' @ '' removed''))], 200), eng1)"
    and "calls eng1 = calls (demo [?c]) @ [ContainersGet ''a1'', Remove ''a1'' True]"
    and "find (\<lambda>c. short_id c = ''a1'') (containers eng1) = None"
    and "remove_container ''a1'' eng1 =
        ((JObject [(''success'', JBool False),
                   (''error'', JStr (str_exn (no_such_container ''a1'')))], 200), eng2)"
    and "calls eng2 = calls eng1 @ [ContainersGet ''a1'']"
    and "find (\<lambda>c. short_id c = ''a1'') (containers eng2) = None"
    by blast
  then show ?thesis
    by (intro exI [of _ eng1] exI [of _ eng2]) (simp add: demo_def no_such_container_def)
qed

subsection \<open>C9\<close>

text \<open>
  Claim C9. When \<^verbatim>\<open>request.get_json()\<close> raises, or returns anything that is not a dict
  (\<^verbatim>\<open>None\<close> included), the create handler ends with an unhandled exception before any
  request reaches the engine, while a failure of the create-and-start request itself is
  answered with the structured \<open>success: false\<close> body.
\<close>

theorem body_not_object_unhandled:
  "(\<forall>e. start_container (Inl e) eng = (Inl e, eng))
   \<and> ((\<forall>kvs. data \<noteq> JObject kvs) \<longrightarrow>
        (\<exists>m. start_container (Inr data) eng = (Inl (AttributeError m), eng)))
   \<and> (\<forall>kvs e. faults eng (ContainersList True) = None \<and> faults eng (ContainersList False) = None
        \<and> (faults eng (ContainersRun (run_kwargs (allocated_name kvs eng) (allocated_port eng))) = Some e
           \<or> faults eng (ContainersRun (run_kwargs (allocated_name kvs eng) (allocated_port eng))) = None
             \<and> run_result eng (run_kwargs (allocated_name kvs eng) (allocated_port eng)) = Inl e)
        \<longrightarrow> fst (start_container (Inr (JObject kvs)) eng) =
              Inr (JObject [(''success'', JBool False), (''error'', JStr (str_exn e))], 200))"
proof -
  have "\<exists>m. start_container (Inr data) eng = (Inl (AttributeError m), eng)"
    if "\<forall>kvs. data \<noteq> JObject kvs"
    using that by (cases data) (simp_all add: start_container_def)
  moreover have "start_container (Inl e) eng = (Inl e, eng)" for e
    by (simp add: start_container_def)
  ultimately show ?thesis
    using start_container_refused [of eng _ _] by (simp add: failure_def)
qed

theorem body_not_object_unhandled_witness:
  "start_container (Inr JNull) (demo []) =
     (Inl (AttributeError (quoted ''NoneType'' @ '' object has no attribute '' @ quoted ''get'')),
      demo [])
   \<and> start_container (Inr (JArray [JStr ''name''])) (demo []) =
     (Inl (AttributeError (quoted ''list'' @ '' object has no attribute '' @ quoted ''get'')),
      demo [])"
  using body_not_object_unhandled [of "demo []" JNull]
    body_not_object_unhandled [of "demo []" "JArray [JStr ''name'']"]
  by (simp add: start_container_def)

subsection \<open>C10\<close>

text \<open>
  Claim C10. The stats, stop and remove handlers always answer with status 200. Every
  failure (the lookup raising, the identifier not resolving, the engine call raising, and
  for stats the metrics computation raising) is answered with the body
  \<open>{success: false, error: str(e)}\<close>, which has these two keys only. An identifier that does
  not resolve gets status 404 from the restart handler alone.
\<close>

theorem failures_without_category:
  "snd (fst (container_stats k eng)) = 200
   \<and> snd (fst (stop_container k eng)) = 200
   \<and> snd (fst (remove_container k eng)) = 200
   \<and> (\<forall>e. faults eng (ContainersGet k) = Some e \<longrightarrow>
          fst (container_stats k eng) = (failure e, 200)
        \<and> fst (stop_container k eng) = (failure e, 200)
        \<and> fst (remove_container k eng) = (failure e, 200))
   \<and> (faults eng (ContainersGet k) = None
        \<and> find (\<lambda>c. short_id c = k) (containers eng) = None \<longrightarrow>
          fst (container_stats k eng) = (failure (no_such_container k), 200)
        \<and> fst (stop_container k eng) = (failure (no_such_container k), 200)
        \<and> fst (remove_container k eng) = (failure (no_such_container k), 200)
        \<and> snd (fst (restart_container k eng)) = 404)
   \<and> (\<forall>c e. faults eng (ContainersGet k) = None
        \<and> find (\<lambda>c. short_id c = k) (containers eng) = Some c \<longrightarrow>
          (faults eng (Stats k False) = Some e \<longrightarrow>
             fst (container_stats k eng) = (failure e, 200))
        \<and> (faults eng (Stats k False) = None \<and> utilization (snapshots eng k) = Inl e \<longrightarrow>
             fst (container_stats k eng) = (failure e, 200))
        \<and> (faults eng (Stop k) = Some e \<longrightarrow>
             fst (stop_container k eng) = (failure e, 200))
        \<and> (faults eng (Remove k True) = Some e \<longrightarrow>
             fst (remove_container k eng) = (failure e, 200)))
   \<and> (\<forall>e. failure e = JObject [(''success'', JBool False), (''error'', JStr (str_exn e))])"
  using status_200 [of k eng]
    container_stats_get_fault [of eng k] stop_container_get_fault [of eng k]
    remove_container_get_fault [of eng k]
    container_stats_missing [of k eng] stop_container_missing [of k eng]
    remove_container_missing [of k eng] restart_container_missing [of k eng]
    container_stats_stats_fault [of k eng] container_stats_found [of k eng]
    stop_container_stop_fault [of k eng] remove_container_remove_fault [of k eng]
  by (simp add: failure_def no_such_container_def)

theorem failures_without_category_witness:
  "fst (container_stats ''zzz'' (demo [])) =
     (JObject [(''success'', JBool False),
               (''error'', JStr ''404 Client Error: Not Found (No such container: zzz)'')], 200)
   \<and> fst (stop_container ''zzz'' (demo [])) =
     (JObject [(''success'', JBool False),
               (''error'', JStr ''404 Client Error: Not Found (No such container: zzz)'')], 200)
   \<and> fst (remove_container ''zzz'' (demo [])) =
     (JObject [(''success'', JBool False),
               (''error'', JStr ''404 Client Error: Not Found (No such container: zzz)'')], 200)
   \<and> snd (fst (restart_container ''zzz'' (demo []))) = 404"
  using failures_without_category [of "''zzz''" "demo []"]
  by (simp add: demo_def failure_def no_such_container_def)

end
